theory Spec2Isabelle
  imports Main "HOL-Library.Multiset" "HOL-Library.Word"
begin

section \<open>Loops over the lanes\<close>

text \<open>
  Every loop of \<^verbatim>\<open>ekat_pack.hpp\<close> runs an \<^verbatim>\<open>int\<close> index over a fixed range of lanes
  and is prefixed by one of the macros \<^verbatim>\<open>vector_simd\<close>, \<^verbatim>\<open>vector_disabled\<close> (or by none).
  The macros are defined in \<^verbatim>\<open>ekat_macros.hpp\<close>, which is not among the sources.

  A plain \<^verbatim>\<open>for\<close> and a \<^verbatim>\<open>vector_disabled for\<close> visit the lanes in index order.
\<close>

definition for_loop :: "nat \<Rightarrow> nat \<Rightarrow> (nat \<Rightarrow> 's \<Rightarrow> 's) \<Rightarrow> 's \<Rightarrow> 's" where
  "for_loop lo hi body s = fold body [lo..<hi] s"

text \<open>
  Modelled from the spec: the macro \<^verbatim>\<open>vector_simd\<close> of \<^verbatim>\<open>ekat_macros.hpp\<close>. It marks
  the loop for the compiler's vectoriser, which leaves the order in which the lanes are
  combined unspecified. The order chosen for the loop with bounds \<open>lo\<close>, \<open>hi\<close> is
  \<open>vo lo hi\<close>, a parameter of every function that has such a loop;
  \<open>vo lo hi = [lo..<hi]\<close> is the loop run as it is written.
\<close>

type_synonym lane_order = "nat \<Rightarrow> nat \<Rightarrow> nat list"

definition vector_simd_for :: "lane_order \<Rightarrow> nat \<Rightarrow> nat \<Rightarrow> (nat \<Rightarrow> 's \<Rightarrow> 's) \<Rightarrow> 's \<Rightarrow> 's" where
  "vector_simd_for vo lo hi body s = fold body (vo lo hi) s"

text \<open>The order visits every index of the range exactly once.\<close>

definition each_lane_once :: "lane_order \<Rightarrow> nat \<Rightarrow> nat \<Rightarrow> bool" where
  "each_lane_once vo lo hi \<longleftrightarrow> mset (vo lo hi) = mset [lo..<hi]"

definition in_order :: lane_order where
  "in_order lo hi = [lo..<hi]"

definition reversed :: lane_order where
  "reversed lo hi = rev [lo..<hi]"

section \<open>Mask\<close>

text \<open>
  \<^verbatim>\<open>Mask<PackSize>\<close> holds \<^verbatim>\<open>long d[n]\<close>. A \<^verbatim>\<open>bool\<close> is stored as 0 or 1 and a lane is
  read back as true when it is not 0. The default constructor leaves the array as it finds
  it, so a Mask is any list of \<open>n\<close> longs. Indices are not checked by the source; every
  index used below is inside the array when the array has \<open>n\<close> lanes.
\<close>

type_synonym long = "64 word"

type_synonym Mask = "long list"

definition Mask_set :: "Mask \<Rightarrow> nat \<Rightarrow> bool \<Rightarrow> Mask" where
  "Mask_set d i val = d[i := of_bool val]"

definition Mask_get :: "Mask \<Rightarrow> nat \<Rightarrow> bool" where
  "Mask_get d i \<longleftrightarrow> d ! i \<noteq> 0"

definition Mask_init :: "nat \<Rightarrow> Mask \<Rightarrow> bool \<Rightarrow> Mask" where
  "Mask_init n raw init = for_loop 0 n (\<lambda>i d. d[i := of_bool init]) raw"

definition Mask_any :: "lane_order \<Rightarrow> nat \<Rightarrow> Mask \<Rightarrow> bool" where
  "Mask_any vo n d = vector_simd_for vo 0 n (\<lambda>i b. if Mask_get d i then True else b) False"

definition Mask_all :: "lane_order \<Rightarrow> nat \<Rightarrow> Mask \<Rightarrow> bool" where
  "Mask_all vo n d = vector_simd_for vo 0 n (\<lambda>i b. if \<not> Mask_get d i then False else b) True"

definition Mask_none :: "lane_order \<Rightarrow> nat \<Rightarrow> Mask \<Rightarrow> bool" where
  "Mask_none vo n d \<longleftrightarrow> \<not> Mask_any vo n d"

section \<open>Pack\<close>

text \<open>
  \<^verbatim>\<open>Pack<ScalarType, PackSize>\<close> holds \<^verbatim>\<open>scalar d[n]\<close> and nothing else, so a Pack is the
  list of its \<open>n\<close> lanes. \<^verbatim>\<open>p[i]\<close> reads \<open>p ! i\<close> and \<^verbatim>\<open>p[i] = v\<close> is \<open>p[i := v]\<close>.
  A constructor runs on storage whose contents are not known; that storage is the
  argument \<open>raw\<close>.

  \<^verbatim>\<open>ScalarTraits<T>\<close> is declared in \<^verbatim>\<open>ekat_scalar_traits.hpp\<close>, which is not among the
  sources; the two values the Pack code asks it for are taken as given.
\<close>

type_synonym 'a Pack = "'a list"

record 'a ScalarTraits =
  invalid :: 'a
  quiet_NaN :: 'a

definition Pack_default :: "lane_order \<Rightarrow> 'a ScalarTraits \<Rightarrow> nat \<Rightarrow> 'a Pack \<Rightarrow> 'a Pack" where
  "Pack_default vo st n raw = vector_simd_for vo 0 n (\<lambda>i d. d[i := invalid st]) raw"

definition Pack_scalar :: "lane_order \<Rightarrow> nat \<Rightarrow> 'a Pack \<Rightarrow> 'a \<Rightarrow> 'a Pack" where
  "Pack_scalar vo n raw v = vector_simd_for vo 0 n (\<lambda>i d. d[i := v]) raw"

definition Pack_masked ::
  "lane_order \<Rightarrow> 'a ScalarTraits \<Rightarrow> nat \<Rightarrow> 'a Pack \<Rightarrow> Mask \<Rightarrow> 'a Pack \<Rightarrow> 'a Pack" where
  "Pack_masked vo st n raw m p =
     vector_simd_for vo 0 n (\<lambda>i d. d[i := (if Mask_get m i then p ! i else invalid st)]) raw"

definition Pack_set_scalar :: "lane_order \<Rightarrow> nat \<Rightarrow> 'a Pack \<Rightarrow> Mask \<Rightarrow> 'a \<Rightarrow> 'a Pack" where
  "Pack_set_scalar vo n d msk v =
     vector_simd_for vo 0 n (\<lambda>i d. if Mask_get msk i then d[i := v] else d) d"

definition Pack_set :: "lane_order \<Rightarrow> nat \<Rightarrow> 'a Pack \<Rightarrow> Mask \<Rightarrow> 'a Pack \<Rightarrow> 'a Pack" where
  "Pack_set vo n d msk p =
     vector_simd_for vo 0 n (\<lambda>i d. if Mask_get msk i then d[i := p ! i] else d) d"

section \<open>Arithmetic operators\<close>

text \<open>
  The macros \<^verbatim>\<open>ekat_pack_gen_bin_op_pp\<close>, \<^verbatim>\<open>_ps\<close> and \<^verbatim>\<open>_sp\<close> generate one operator
  each per operand shape; their argument \<open>op\<close> is the operator of the scalar type. The
  result \<^verbatim>\<open>PackType c;\<close> is default-constructed before the loop fills it. The scalar
  operand has the Pack's scalar type.
\<close>

definition ekat_pack_gen_bin_op_pp ::
  "('a \<Rightarrow> 'a \<Rightarrow> 'a) \<Rightarrow> lane_order \<Rightarrow> 'a ScalarTraits \<Rightarrow> nat \<Rightarrow> 'a Pack \<Rightarrow> 'a Pack \<Rightarrow> 'a Pack \<Rightarrow> 'a Pack" where
  "ekat_pack_gen_bin_op_pp op vo st n raw a b =
     vector_simd_for vo 0 n (\<lambda>i c. c[i := op (a ! i) (b ! i)]) (Pack_default vo st n raw)"

definition ekat_pack_gen_bin_op_ps ::
  "('a \<Rightarrow> 'a \<Rightarrow> 'a) \<Rightarrow> lane_order \<Rightarrow> 'a ScalarTraits \<Rightarrow> nat \<Rightarrow> 'a Pack \<Rightarrow> 'a Pack \<Rightarrow> 'a \<Rightarrow> 'a Pack" where
  "ekat_pack_gen_bin_op_ps op vo st n raw a b =
     vector_simd_for vo 0 n (\<lambda>i c. c[i := op (a ! i) b]) (Pack_default vo st n raw)"

definition ekat_pack_gen_bin_op_sp ::
  "('a \<Rightarrow> 'a \<Rightarrow> 'a) \<Rightarrow> lane_order \<Rightarrow> 'a ScalarTraits \<Rightarrow> nat \<Rightarrow> 'a Pack \<Rightarrow> 'a \<Rightarrow> 'a Pack \<Rightarrow> 'a Pack" where
  "ekat_pack_gen_bin_op_sp op vo st n raw a b =
     vector_simd_for vo 0 n (\<lambda>i c. c[i := op a (b ! i)]) (Pack_default vo st n raw)"

text \<open>
  \<^verbatim>\<open>ekat_pack_gen_bin_op_all(+)\<close>, \<^verbatim>\<open>(-)\<close>, \<^verbatim>\<open>(*)\<close> and \<^verbatim>\<open>(/)\<close>: the twelve operators.
  The scalar operators are those of the scalar type, whatever they compute.
\<close>

definition plus_pp ::
  "lane_order \<Rightarrow> ('a::plus) ScalarTraits \<Rightarrow> nat \<Rightarrow> 'a Pack \<Rightarrow> 'a Pack \<Rightarrow> 'a Pack \<Rightarrow> 'a Pack" where
  "plus_pp = ekat_pack_gen_bin_op_pp (+)"

definition plus_ps ::
  "lane_order \<Rightarrow> ('a::plus) ScalarTraits \<Rightarrow> nat \<Rightarrow> 'a Pack \<Rightarrow> 'a Pack \<Rightarrow> 'a \<Rightarrow> 'a Pack" where
  "plus_ps = ekat_pack_gen_bin_op_ps (+)"

definition plus_sp ::
  "lane_order \<Rightarrow> ('a::plus) ScalarTraits \<Rightarrow> nat \<Rightarrow> 'a Pack \<Rightarrow> 'a \<Rightarrow> 'a Pack \<Rightarrow> 'a Pack" where
  "plus_sp = ekat_pack_gen_bin_op_sp (+)"

definition minus_pp ::
  "lane_order \<Rightarrow> ('a::minus) ScalarTraits \<Rightarrow> nat \<Rightarrow> 'a Pack \<Rightarrow> 'a Pack \<Rightarrow> 'a Pack \<Rightarrow> 'a Pack" where
  "minus_pp = ekat_pack_gen_bin_op_pp (-)"

definition minus_ps ::
  "lane_order \<Rightarrow> ('a::minus) ScalarTraits \<Rightarrow> nat \<Rightarrow> 'a Pack \<Rightarrow> 'a Pack \<Rightarrow> 'a \<Rightarrow> 'a Pack" where
  "minus_ps = ekat_pack_gen_bin_op_ps (-)"

definition minus_sp ::
  "lane_order \<Rightarrow> ('a::minus) ScalarTraits \<Rightarrow> nat \<Rightarrow> 'a Pack \<Rightarrow> 'a \<Rightarrow> 'a Pack \<Rightarrow> 'a Pack" where
  "minus_sp = ekat_pack_gen_bin_op_sp (-)"

definition times_pp ::
  "lane_order \<Rightarrow> ('a::times) ScalarTraits \<Rightarrow> nat \<Rightarrow> 'a Pack \<Rightarrow> 'a Pack \<Rightarrow> 'a Pack \<Rightarrow> 'a Pack" where
  "times_pp = ekat_pack_gen_bin_op_pp (*)"

definition times_ps ::
  "lane_order \<Rightarrow> ('a::times) ScalarTraits \<Rightarrow> nat \<Rightarrow> 'a Pack \<Rightarrow> 'a Pack \<Rightarrow> 'a \<Rightarrow> 'a Pack" where
  "times_ps = ekat_pack_gen_bin_op_ps (*)"

definition times_sp ::
  "lane_order \<Rightarrow> ('a::times) ScalarTraits \<Rightarrow> nat \<Rightarrow> 'a Pack \<Rightarrow> 'a \<Rightarrow> 'a Pack \<Rightarrow> 'a Pack" where
  "times_sp = ekat_pack_gen_bin_op_sp (*)"

definition divide_pp ::
  "lane_order \<Rightarrow> ('a::divide) ScalarTraits \<Rightarrow> nat \<Rightarrow> 'a Pack \<Rightarrow> 'a Pack \<Rightarrow> 'a Pack \<Rightarrow> 'a Pack" where
  "divide_pp = ekat_pack_gen_bin_op_pp divide"

definition divide_ps ::
  "lane_order \<Rightarrow> ('a::divide) ScalarTraits \<Rightarrow> nat \<Rightarrow> 'a Pack \<Rightarrow> 'a Pack \<Rightarrow> 'a \<Rightarrow> 'a Pack" where
  "divide_ps = ekat_pack_gen_bin_op_ps divide"

definition divide_sp ::
  "lane_order \<Rightarrow> ('a::divide) ScalarTraits \<Rightarrow> nat \<Rightarrow> 'a Pack \<Rightarrow> 'a \<Rightarrow> 'a Pack \<Rightarrow> 'a Pack" where
  "divide_sp = ekat_pack_gen_bin_op_sp divide"

section \<open>Reductions\<close>

text \<open>
  \<^verbatim>\<open>reduce_sum<Serialize>(p, sum)\<close> adds the lanes onto the caller's \<^verbatim>\<open>sum\<close>: with a plain
  loop when \<^verbatim>\<open>Serialize\<close> holds, with a \<^verbatim>\<open>vector_simd\<close> loop otherwise. The overloads
  that default \<^verbatim>\<open>Serialize\<close> to \<^verbatim>\<open>ekatBFB\<close> forward to these two.
\<close>

definition reduce_sum :: "bool \<Rightarrow> lane_order \<Rightarrow> nat \<Rightarrow> ('a::plus) Pack \<Rightarrow> 'a \<Rightarrow> 'a" where
  "reduce_sum Serialize vo n p sum0 =
     (if Serialize then for_loop 0 n (\<lambda>i acc. acc + p ! i) sum0
      else vector_simd_for vo 0 n (\<lambda>i acc. acc + p ! i) sum0)"

definition reduce_sum_of :: "bool \<Rightarrow> lane_order \<Rightarrow> nat \<Rightarrow> ('a::{plus,zero}) Pack \<Rightarrow> 'a" where
  "reduce_sum_of Serialize vo n p = reduce_sum Serialize vo n p 0"

text \<open>
  Modelled from the spec: \<^verbatim>\<open>impl::min\<close> and \<^verbatim>\<open>impl::max\<close> of \<^verbatim>\<open>ekat_math_utils.hpp\<close>,
  which is not among the sources: the minimum and maximum of two scalars, on a scalar
  type that is totally ordered.
\<close>

definition impl_min :: "'a::linorder \<Rightarrow> 'a \<Rightarrow> 'a" where
  "impl_min a b = min a b"

definition impl_max :: "'a::linorder \<Rightarrow> 'a \<Rightarrow> 'a" where
  "impl_max a b = max a b"

text \<open>The masked reductions; the loop of \<^verbatim>\<open>min\<close> is \<^verbatim>\<open>vector_disabled\<close>, that of
  \<^verbatim>\<open>max\<close> is \<^verbatim>\<open>vector_simd\<close>.\<close>

definition min_masked :: "nat \<Rightarrow> Mask \<Rightarrow> ('a::linorder) \<Rightarrow> 'a Pack \<Rightarrow> 'a" where
  "min_masked n msk init p =
     for_loop 0 n (\<lambda>i init. if Mask_get msk i then impl_min init (p ! i) else init) init"

definition max_masked :: "lane_order \<Rightarrow> nat \<Rightarrow> Mask \<Rightarrow> ('a::linorder) \<Rightarrow> 'a Pack \<Rightarrow> 'a" where
  "max_masked vo n msk init p =
     vector_simd_for vo 0 n (\<lambda>i init. if Mask_get msk i then impl_max init (p ! i) else init) init"

section \<open>Shifts\<close>

text \<open>
  \<^verbatim>\<open>shift_right\<close> and \<^verbatim>\<open>shift_left\<close> are overloaded on the boundary: a Pack (\<^verbatim>\<open>pm1\<close>, the
  pack before; \<^verbatim>\<open>pp1\<close>, the pack after) or a scalar.
\<close>

definition shift_right_pack ::
  "lane_order \<Rightarrow> 'a ScalarTraits \<Rightarrow> nat \<Rightarrow> 'a Pack \<Rightarrow> 'a Pack \<Rightarrow> 'a Pack \<Rightarrow> 'a Pack" where
  "shift_right_pack vo st n raw pm1 p =
     (let s = Pack_default vo st n raw;
          s = s[0 := pm1 ! (n - 1)]
      in vector_simd_for vo 1 n (\<lambda>i s. s[i := p ! (i - 1)]) s)"

definition shift_right_scalar ::
  "lane_order \<Rightarrow> 'a ScalarTraits \<Rightarrow> nat \<Rightarrow> 'a Pack \<Rightarrow> 'a \<Rightarrow> 'a Pack \<Rightarrow> 'a Pack" where
  "shift_right_scalar vo st n raw pm1 p =
     (let s = Pack_default vo st n raw;
          s = s[0 := pm1]
      in vector_simd_for vo 1 n (\<lambda>i s. s[i := p ! (i - 1)]) s)"

definition shift_left_pack ::
  "lane_order \<Rightarrow> 'a ScalarTraits \<Rightarrow> nat \<Rightarrow> 'a Pack \<Rightarrow> 'a Pack \<Rightarrow> 'a Pack \<Rightarrow> 'a Pack" where
  "shift_left_pack vo st n raw pp1 p =
     (let s = Pack_default vo st n raw;
          s = s[n - 1 := pp1 ! 0]
      in vector_simd_for vo 0 (n - 1) (\<lambda>i s. s[i := p ! (i + 1)]) s)"

definition shift_left_scalar ::
  "lane_order \<Rightarrow> 'a ScalarTraits \<Rightarrow> nat \<Rightarrow> 'a Pack \<Rightarrow> 'a \<Rightarrow> 'a Pack \<Rightarrow> 'a Pack" where
  "shift_left_scalar vo st n raw pp1 p =
     (let s = Pack_default vo st n raw;
          s = s[n - 1 := pp1]
      in vector_simd_for vo 0 (n - 1) (\<lambda>i s. s[i := p ! (i + 1)]) s)"

section \<open>ScalarTraits of a Pack\<close>

text \<open>
  \<^verbatim>\<open>ScalarTraits<Pack<T,N>>\<close> builds its two sentinels with the broadcast constructor
  from those of the inner traits. Its \<^verbatim>\<open>static_assert\<close> admits a pack size that is
  positive and a power of two.
\<close>

definition pack_size_ok :: "nat \<Rightarrow> bool" where
  "pack_size_ok n \<longleftrightarrow> n > 0 \<and> and n (n - 1) = 0"

definition ScalarTraits_Pack ::
  "lane_order \<Rightarrow> 'a ScalarTraits \<Rightarrow> nat \<Rightarrow> 'a Pack \<Rightarrow> 'a Pack ScalarTraits" where
  "ScalarTraits_Pack vo inner_traits n raw =
     \<lparr>invalid = Pack_scalar vo n raw (invalid inner_traits),
      quiet_NaN = Pack_scalar vo n raw (quiet_NaN inner_traits)\<rparr>"

section \<open>The abort facility\<close>

text \<open>
  \<^verbatim>\<open>ekat_assert.cpp\<close>. The process is what the two functions read and write: the text
  sent to \<^verbatim>\<open>std::cerr\<close>, whether the session has been finalized, and whether MPI has
  been initialized. Neither \<^verbatim>\<open>MPI_Abort\<close> nor \<^verbatim>\<open>std::abort\<close> returns: the process ends
  there, and how it ends is part of the outcome.
\<close>

record process =
  cerr :: string
  session_finalized :: bool
  mpi_initialized :: bool

datatype exit = MPI_Abort int | Abort

datatype outcome = Returns process | Exits exit process

definition endl :: string where
  "endl = [CHR 0x0A]"

text \<open>
  Modelled from the spec: \<^verbatim>\<open>finalize_ekat_session\<close> of \<^verbatim>\<open>ekat_session.cpp\<close>, which is not
  among the sources: the coordinated shutdown of the runtime environment.
\<close>

definition finalize_ekat_session :: "process \<Rightarrow> process" where
  "finalize_ekat_session w = w\<lparr>session_finalized := True\<rparr>"

text \<open>\<^verbatim>\<open>MPI_Initialized(&flag)\<close> of the MPI library sets the flag to non-zero iff MPI has
  been initialized.\<close>

definition MPI_Initialized :: "process \<Rightarrow> int" where
  "MPI_Initialized w = (if mpi_initialized w then 1 else 0)"

definition runtime_abort :: "string \<Rightarrow> int \<Rightarrow> process \<Rightarrow> outcome" where
  "runtime_abort message code w =
     (let w = w\<lparr>cerr := cerr w @ message @ endl @ ''Exiting...'' @ endl\<rparr>;
          w = finalize_ekat_session w;
          flag = MPI_Initialized w
      in if flag \<noteq> 0 then Exits (MPI_Abort code) w else Exits Abort w)"

definition runtime_check :: "bool \<Rightarrow> string \<Rightarrow> int \<Rightarrow> process \<Rightarrow> outcome" where
  "runtime_check cond message code w =
     (if \<not> cond then runtime_abort message code w else Returns w)"

section \<open>Lane-wise loops\<close>

lemma fold_lane_length:
  "length (fold (\<lambda>i d. if c i then d[i := g i] else d) ord d) = length d"
  by (induction ord arbitrary: d) simp_all

lemma fold_lane_nth:
  "j < length d \<Longrightarrow>
   fold (\<lambda>i d. if c i then d[i := g i] else d) ord d ! j =
     (if j \<in> set ord \<and> c j then g j else d ! j)"
proof (induction ord arbitrary: d)
  case Nil
  then show ?case by simp
next
  case (Cons k ord)
  show ?case
  proof (cases "k = j")
    case True
    with Cons show ?thesis by simp
  next
    case False
    with Cons show ?thesis by simp
  qed
qed

lemma each_lane_once_set: "each_lane_once vo lo hi \<Longrightarrow> set (vo lo hi) = {lo..<hi}"
  unfolding each_lane_once_def using mset_eq_setD by fastforce

lemma each_lane_once_in_order: "each_lane_once in_order lo hi"
  by (simp add: each_lane_once_def in_order_def)

lemma each_lane_once_reversed: "each_lane_once reversed lo hi"
  by (simp add: each_lane_once_def reversed_def)

lemma simd_lanes_nth:
  assumes "each_lane_once vo lo hi" and "j < length d"
  shows "vector_simd_for vo lo hi (\<lambda>i d. if c i then d[i := g i] else d) d ! j =
           (if lo \<le> j \<and> j < hi \<and> c j then g j else d ! j)"
  using assms by (simp add: vector_simd_for_def fold_lane_nth each_lane_once_set)

lemma simd_lanes_length:
  "length (vector_simd_for vo lo hi (\<lambda>i d. if c i then d[i := g i] else d) d) = length d"
  by (simp add: vector_simd_for_def fold_lane_length)

lemma simd_all_lanes_nth:
  assumes "each_lane_once vo lo hi" and "j < length d"
  shows "vector_simd_for vo lo hi (\<lambda>i d. d[i := g i]) d ! j =
           (if lo \<le> j \<and> j < hi then g j else d ! j)"
  using simd_lanes_nth [OF assms, of "\<lambda>_. True" g] by simp

lemma simd_all_lanes_length:
  "length (vector_simd_for vo lo hi (\<lambda>i d. d[i := g i]) d) = length d"
  using simd_lanes_length [of vo lo hi "\<lambda>_. True" g d] by simp

lemma Pack_default_nth:
  "each_lane_once vo 0 n \<Longrightarrow> length raw = n \<Longrightarrow> i < n \<Longrightarrow> Pack_default vo st n raw ! i = invalid st"
  by (simp add: Pack_default_def simd_all_lanes_nth)

lemma Pack_default_length: "length (Pack_default vo st n raw) = length raw"
  by (simp add: Pack_default_def simd_all_lanes_length)

lemma Pack_scalar_nth:
  "each_lane_once vo 0 n \<Longrightarrow> length raw = n \<Longrightarrow> i < n \<Longrightarrow> Pack_scalar vo n raw v ! i = v"
  by (simp add: Pack_scalar_def simd_all_lanes_nth)

lemma Pack_scalar_length: "length (Pack_scalar vo n raw v) = length raw"
  by (simp add: Pack_scalar_def simd_all_lanes_length)

section \<open>Default construction\<close>

text \<open>
  C4. A default-constructed \<^verbatim>\<open>Pack<T,N>\<close> has \<open>N\<close> lanes and every lane is
  \<^verbatim>\<open>ScalarTraits<T>::invalid()\<close>, whatever the storage held before and in whatever order
  the vectorised loop fills the lanes.
\<close>

theorem Pack_default_all_invalid:
  assumes "each_lane_once vo 0 n" and "length raw = n"
  shows "Pack_default vo st n raw = replicate n (invalid st)"
proof (rule nth_equalityI)
  show "length (Pack_default vo st n raw) = length (replicate n (invalid st))"
    using assms by (simp add: Pack_default_length)
next
  fix i assume "i < length (Pack_default vo st n raw)"
  then have "i < n" using assms by (simp add: Pack_default_length)
  then show "Pack_default vo st n raw ! i = replicate n (invalid st) ! i"
    using assms by (simp add: Pack_default_nth)
qed

theorem Pack_default_all_invalid_witness:
  "each_lane_once reversed 0 4 \<and> length [7, 8, 9, 10 :: int] = 4 \<and>
   Pack_default reversed \<lparr>invalid = 2147483647, quiet_NaN = 0\<rparr> 4 [7, 8, 9, 10 :: int] =
     [2147483647, 2147483647, 2147483647, 2147483647]"
  using Pack_default_all_invalid [of reversed 4 "[7, 8, 9, 10 :: int]"
      "\<lparr>invalid = 2147483647, quiet_NaN = 0\<rparr>"]
  by (simp add: each_lane_once_reversed numeral_eq_Suc)

section \<open>Masked construction and masked assignment\<close>

lemma Pack_masked_nth:
  "each_lane_once vo 0 n \<Longrightarrow> length raw = n \<Longrightarrow> i < n \<Longrightarrow>
   Pack_masked vo st n raw m p ! i = (if Mask_get m i then p ! i else invalid st)"
  by (simp add: Pack_masked_def simd_all_lanes_nth)

lemma Pack_masked_length: "length (Pack_masked vo st n raw m p) = length raw"
  by (simp add: Pack_masked_def simd_all_lanes_length)

lemma Pack_set_nth:
  "each_lane_once vo 0 n \<Longrightarrow> length q = n \<Longrightarrow> i < n \<Longrightarrow>
   Pack_set vo n q m p ! i = (if Mask_get m i then p ! i else q ! i)"
  by (simp add: Pack_set_def simd_lanes_nth)

lemma Pack_set_length: "length (Pack_set vo n q m p) = length q"
  by (simp add: Pack_set_def simd_lanes_length)

text \<open>
  C3. For a Mask \<open>m\<close>, Packs \<open>p\<close>, \<open>q\<close> and a lane \<open>i < n\<close>: lane \<open>i\<close> of \<^verbatim>\<open>Pack(m, p)\<close> is
  \<open>p[i]\<close> where \<open>m[i]\<close> holds and \<^verbatim>\<open>ScalarTraits<T>::invalid()\<close> elsewhere; after
  \<^verbatim>\<open>q.set(m, p)\<close> lane \<open>i\<close> of \<open>q\<close> is \<open>p[i]\<close> where \<open>m[i]\<close> holds and its prior value
  elsewhere. The two agree on the selected lanes and differ in what they leave in the
  unselected ones: the sentinel against the prior value.
\<close>

theorem masked_constructor_and_set:
  assumes "each_lane_once vo 0 n" and "length raw = n" and "length q = n" and "i < n"
  shows "Pack_masked vo st n raw m p ! i = (if Mask_get m i then p ! i else invalid st) \<and>
         Pack_set vo n q m p ! i = (if Mask_get m i then p ! i else q ! i) \<and>
         (Mask_get m i \<longrightarrow> Pack_masked vo st n raw m p ! i = Pack_set vo n q m p ! i) \<and>
         (\<not> Mask_get m i \<longrightarrow> Pack_masked vo st n raw m p ! i = invalid st \<and>
                               Pack_set vo n q m p ! i = q ! i) \<and>
         length (Pack_masked vo st n raw m p) = n \<and> length (Pack_set vo n q m p) = n"
  using assms by (simp add: Pack_masked_nth Pack_set_nth Pack_masked_length Pack_set_length)

theorem masked_constructor_and_set_witness:
  "each_lane_once reversed 0 2 \<and> length [5, 6 :: int] = 2 \<and> length [7, 8 :: int] = 2 \<and> (1::nat) < 2 \<and>
   Pack_masked reversed \<lparr>invalid = -1, quiet_NaN = 0\<rparr> 2 [5, 6] [1, 0] [10, 20 :: int] = [10, -1] \<and>
   Pack_set reversed 2 [7, 8] [1, 0] [10, 20 :: int] = [10, 8]"
  using masked_constructor_and_set [of reversed 2 "[5, 6 :: int]" "[7, 8 :: int]" 1
      "\<lparr>invalid = -1, quiet_NaN = 0\<rparr>" "[1, 0]" "[10, 20]"]
  by (simp add: each_lane_once_reversed Pack_masked_def Pack_set_def vector_simd_for_def
      reversed_def Mask_get_def upt_rec)

section \<open>Sentinels of a Pack\<close>

text \<open>
  C7. \<^verbatim>\<open>ScalarTraits<Pack<T,N>>::invalid()\<close> is the Pack whose \<open>N\<close> lanes are all
  \<^verbatim>\<open>ScalarTraits<T>::invalid()\<close>, and \<^verbatim>\<open>quiet_NaN()\<close> is the Pack whose \<open>N\<close> lanes are all
  \<^verbatim>\<open>ScalarTraits<T>::quiet_NaN()\<close>. The lanes hold the inner value itself, so the statement
  does not depend on how the scalar type compares a NaN. The instance with four lanes
  follows the theorem.
\<close>

theorem ScalarTraits_Pack_sentinels:
  assumes "each_lane_once vo 0 n" and "length raw = n"
  shows "invalid (ScalarTraits_Pack vo st n raw) = replicate n (invalid st) \<and>
         quiet_NaN (ScalarTraits_Pack vo st n raw) = replicate n (quiet_NaN st)"
  using assms
  by (auto simp: ScalarTraits_Pack_def Pack_scalar_length Pack_scalar_nth intro!: nth_equalityI)

theorem ScalarTraits_Pack_sentinels_witness:
  "each_lane_once reversed 0 4 \<and> length [1, 2, 3, 4 :: int] = 4 \<and> pack_size_ok 4 \<and>
   invalid (ScalarTraits_Pack reversed \<lparr>invalid = 9, quiet_NaN = 8\<rparr> 4 [1, 2, 3, 4 :: int]) = [9, 9, 9, 9] \<and>
   quiet_NaN (ScalarTraits_Pack reversed \<lparr>invalid = 9, quiet_NaN = 8\<rparr> 4 [1, 2, 3, 4 :: int]) = [8, 8, 8, 8]"
proof -
  have size: "pack_size_ok 4"
    by (simp add: pack_size_ok_def)
  have four: "replicate 4 x = [x, x, x, x]" for x :: int
    by (simp add: numeral_eq_Suc)
  show ?thesis
    using ScalarTraits_Pack_sentinels [of reversed 4 "[1, 2, 3, 4 :: int]" "\<lparr>invalid = 9, quiet_NaN = 8\<rparr>"]
    by (simp add: each_lane_once_reversed size four)
qed

section \<open>Lane-wise arithmetic\<close>

lemma bin_op_pp_nth:
  "each_lane_once vo 0 n \<Longrightarrow> length raw = n \<Longrightarrow> i < n \<Longrightarrow>
   ekat_pack_gen_bin_op_pp op vo st n raw a b ! i = op (a ! i) (b ! i)"
  by (simp add: ekat_pack_gen_bin_op_pp_def simd_all_lanes_nth Pack_default_length)

lemma bin_op_ps_nth:
  "each_lane_once vo 0 n \<Longrightarrow> length raw = n \<Longrightarrow> i < n \<Longrightarrow>
   ekat_pack_gen_bin_op_ps op vo st n raw a s ! i = op (a ! i) s"
  by (simp add: ekat_pack_gen_bin_op_ps_def simd_all_lanes_nth Pack_default_length)

lemma bin_op_sp_nth:
  "each_lane_once vo 0 n \<Longrightarrow> length raw = n \<Longrightarrow> i < n \<Longrightarrow>
   ekat_pack_gen_bin_op_sp op vo st n raw s b ! i = op s (b ! i)"
  by (simp add: ekat_pack_gen_bin_op_sp_def simd_all_lanes_nth Pack_default_length)

lemma bin_op_length:
  "length (ekat_pack_gen_bin_op_pp op vo st n raw a b) = length raw"
  "length (ekat_pack_gen_bin_op_ps op vo st n raw a s) = length raw"
  "length (ekat_pack_gen_bin_op_sp op vo st n raw s b) = length raw"
  by (simp_all add: ekat_pack_gen_bin_op_pp_def ekat_pack_gen_bin_op_ps_def
      ekat_pack_gen_bin_op_sp_def simd_all_lanes_length Pack_default_length)

lemmas bin_op_defs =
  plus_pp_def plus_ps_def plus_sp_def minus_pp_def minus_ps_def minus_sp_def
  times_pp_def times_ps_def times_sp_def divide_pp_def divide_ps_def divide_sp_def

text \<open>
  C5. For Packs \<open>a\<close>, \<open>b\<close>, a scalar \<open>s\<close> and a lane \<open>i < n\<close>: \<open>(a + b)[i] = a[i] + b[i]\<close>,
  \<open>(a + s)[i] = a[i] + s\<close>, \<open>(s + b)[i] = s + b[i]\<close>, and the same for \<open>-\<close>, \<open>*\<close> and \<open>/\<close>;
  each of the twelve operators yields a Pack of \<open>n\<close> lanes.
\<close>

theorem arithmetic_operators_lanewise:
  fixes a b :: "('a::{plus,minus,times,divide}) Pack" and s :: 'a
  assumes "each_lane_once vo 0 n" and "length raw = n" and "i < n"
  shows "plus_pp vo st n raw a b ! i = a ! i + b ! i \<and>
         plus_ps vo st n raw a s ! i = a ! i + s \<and>
         plus_sp vo st n raw s b ! i = s + b ! i \<and>
         minus_pp vo st n raw a b ! i = a ! i - b ! i \<and>
         minus_ps vo st n raw a s ! i = a ! i - s \<and>
         minus_sp vo st n raw s b ! i = s - b ! i \<and>
         times_pp vo st n raw a b ! i = a ! i * b ! i \<and>
         times_ps vo st n raw a s ! i = a ! i * s \<and>
         times_sp vo st n raw s b ! i = s * b ! i \<and>
         divide_pp vo st n raw a b ! i = divide (a ! i) (b ! i) \<and>
         divide_ps vo st n raw a s ! i = divide (a ! i) s \<and>
         divide_sp vo st n raw s b ! i = divide s (b ! i) \<and>
         length (plus_pp vo st n raw a b) = n \<and> length (plus_ps vo st n raw a s) = n \<and>
         length (plus_sp vo st n raw s b) = n \<and>
         length (minus_pp vo st n raw a b) = n \<and> length (minus_ps vo st n raw a s) = n \<and>
         length (minus_sp vo st n raw s b) = n \<and>
         length (times_pp vo st n raw a b) = n \<and> length (times_ps vo st n raw a s) = n \<and>
         length (times_sp vo st n raw s b) = n \<and>
         length (divide_pp vo st n raw a b) = n \<and> length (divide_ps vo st n raw a s) = n \<and>
         length (divide_sp vo st n raw s b) = n"
  using assms
  by (simp add: bin_op_defs bin_op_pp_nth bin_op_ps_nth bin_op_sp_nth bin_op_length)

theorem arithmetic_operators_lanewise_witness:
  "each_lane_once reversed 0 2 \<and> length [0, 0 :: int] = 2 \<and> (1::nat) < 2 \<and>
   plus_pp reversed \<lparr>invalid = -1, quiet_NaN = 0\<rparr> 2 [0, 0] [1, 2] [10, 20 :: int] = [11, 22] \<and>
   minus_ps reversed \<lparr>invalid = -1, quiet_NaN = 0\<rparr> 2 [0, 0] [1, 2] (10 :: int) = [-9, -8] \<and>
   times_sp reversed \<lparr>invalid = -1, quiet_NaN = 0\<rparr> 2 [0, 0] 3 [10, 20 :: int] = [30, 60]"
  using arithmetic_operators_lanewise [of reversed 2 "[0, 0 :: int]" 1
      "\<lparr>invalid = -1, quiet_NaN = 0\<rparr>" "[1, 2]" "[10, 20]" 10]
  by (simp add: each_lane_once_reversed bin_op_defs ekat_pack_gen_bin_op_pp_def
      ekat_pack_gen_bin_op_ps_def ekat_pack_gen_bin_op_sp_def Pack_default_def
      vector_simd_for_def reversed_def upt_rec)

section \<open>Lane shifts\<close>

text \<open>
  C1, as the code has it. With a scalar boundary \<open>b\<close>, lane 0 of \<^verbatim>\<open>shift_right(b, p)\<close> is
  \<open>b\<close>; with a boundary Pack \<open>pm1\<close> it is the last lane \<open>pm1[N-1]\<close> of that Pack, the
  neighbour of \<open>p[0]\<close> in the pack before. Lanes \<open>1..N-1\<close> are \<open>p[0..N-2]\<close>. Lane \<open>N-1\<close> of
  \<^verbatim>\<open>shift_left(b, p)\<close> is \<open>b\<close>, or lane 0 of the boundary Pack \<open>pp1\<close>, and lanes \<open>0..N-2\<close>
  are \<open>p[1..N-1]\<close>.
\<close>

theorem shift_lanes:
  assumes "0 < n" and "length raw = n"
    and "each_lane_once vo 0 n" and "each_lane_once vo 1 n" and "each_lane_once vo 0 (n - 1)"
  shows "shift_right_scalar vo st n raw b p ! 0 = b \<and>
         shift_right_pack vo st n raw pm1 p ! 0 = pm1 ! (n - 1) \<and>
         (\<forall>i. 1 \<le> i \<and> i < n \<longrightarrow>
            shift_right_scalar vo st n raw b p ! i = p ! (i - 1) \<and>
            shift_right_pack vo st n raw pm1 p ! i = p ! (i - 1)) \<and>
         shift_left_scalar vo st n raw b p ! (n - 1) = b \<and>
         shift_left_pack vo st n raw pp1 p ! (n - 1) = pp1 ! 0 \<and>
         (\<forall>i. i < n - 1 \<longrightarrow>
            shift_left_scalar vo st n raw b p ! i = p ! (i + 1) \<and>
            shift_left_pack vo st n raw pp1 p ! i = p ! (i + 1)) \<and>
         length (shift_right_scalar vo st n raw b p) = n \<and>
         length (shift_right_pack vo st n raw pm1 p) = n \<and>
         length (shift_left_scalar vo st n raw b p) = n \<and>
         length (shift_left_pack vo st n raw pp1 p) = n"
  using assms
  by (simp add: shift_right_scalar_def shift_right_pack_def shift_left_scalar_def
      shift_left_pack_def Let_def simd_all_lanes_nth simd_all_lanes_length Pack_default_length)

text \<open>
  C1 as stated takes lane 0 of a boundary Pack for \<^verbatim>\<open>shift_right\<close> too. With two lanes, boundary Pack \<open>[1, 2]\<close> and \<open>p = [3, 4]\<close>, \<^verbatim>\<open>shift_right\<close> yields
  \<open>[2, 3]\<close>: lane 0 is the boundary's lane 1, not its lane 0.
\<close>

theorem shift_right_pack_lane0_counterexample:
  "shift_right_pack in_order \<lparr>invalid = 2147483647, quiet_NaN = 0\<rparr> 2 [0, 0] [1, 2] [3, 4 :: int]
     = [2, 3] \<and>
   shift_right_pack in_order \<lparr>invalid = 2147483647, quiet_NaN = 0\<rparr> 2 [0, 0] [1, 2] [3, 4 :: int] ! 0
     \<noteq> [1, 2] ! 0"
  by (simp add: shift_right_pack_def Pack_default_def vector_simd_for_def in_order_def upt_rec)

theorem shift_lanes_witness:
  "(0::nat) < 2 \<and> length [0, 0 :: int] = 2 \<and>
   each_lane_once reversed 0 2 \<and> each_lane_once reversed 1 2 \<and> each_lane_once reversed 0 (2 - 1) \<and>
   shift_right_scalar reversed \<lparr>invalid = -1, quiet_NaN = 0\<rparr> 2 [0, 0] 9 [3, 4 :: int] = [9, 3] \<and>
   shift_right_pack reversed \<lparr>invalid = -1, quiet_NaN = 0\<rparr> 2 [0, 0] [1, 2] [3, 4 :: int] = [2, 3] \<and>
   shift_left_scalar reversed \<lparr>invalid = -1, quiet_NaN = 0\<rparr> 2 [0, 0] 9 [3, 4 :: int] = [4, 9] \<and>
   shift_left_pack reversed \<lparr>invalid = -1, quiet_NaN = 0\<rparr> 2 [0, 0] [1, 2] [3, 4 :: int] = [4, 1]"
  using shift_lanes [of 2 "[0, 0 :: int]" reversed "\<lparr>invalid = -1, quiet_NaN = 0\<rparr>" 9 "[3, 4]" "[1, 2]" "[1, 2]"]
  by (simp add: each_lane_once_reversed shift_right_scalar_def shift_right_pack_def
      shift_left_scalar_def shift_left_pack_def Pack_default_def
      vector_simd_for_def reversed_def upt_rec)

section \<open>Mask queries\<close>

lemma fold_any: "fold (\<lambda>i b. if c i then True else b) ord b0 \<longleftrightarrow> b0 \<or> (\<exists>i\<in>set ord. c i)"
  by (induction ord arbitrary: b0) auto

lemma fold_all: "fold (\<lambda>i b. if \<not> c i then False else b) ord b0 \<longleftrightarrow> b0 \<and> (\<forall>i\<in>set ord. c i)"
  by (induction ord arbitrary: b0) auto

lemma Mask_any_iff: "each_lane_once vo 0 n \<Longrightarrow> Mask_any vo n d \<longleftrightarrow> (\<exists>i<n. Mask_get d i)"
  by (auto simp: Mask_any_def vector_simd_for_def fold_any each_lane_once_set)

lemma Mask_all_iff: "each_lane_once vo 0 n \<Longrightarrow> Mask_all vo n d \<longleftrightarrow> (\<forall>i<n. Mask_get d i)"
  by (auto simp: Mask_all_def vector_simd_for_def fold_all each_lane_once_set)

text \<open>
  C8. For a Mask of any contents: \<^verbatim>\<open>any()\<close> holds iff some lane is true, \<^verbatim>\<open>all()\<close> holds
  iff every lane is true, \<^verbatim>\<open>none()\<close> is the negation of \<^verbatim>\<open>any()\<close>, and \<^verbatim>\<open>all()\<close> implies
  \<^verbatim>\<open>any()\<close> (a Mask has at least one lane).
\<close>

theorem Mask_any_all_none:
  assumes "each_lane_once vo 0 n"
  shows "(Mask_any vo n d \<longleftrightarrow> (\<exists>i<n. Mask_get d i)) \<and>
         (Mask_all vo n d \<longleftrightarrow> (\<forall>i<n. Mask_get d i)) \<and>
         (Mask_none vo n d \<longleftrightarrow> \<not> Mask_any vo n d) \<and>
         (0 < n \<longrightarrow> Mask_all vo n d \<longrightarrow> Mask_any vo n d)"
  using assms by (auto simp: Mask_any_iff Mask_all_iff Mask_none_def)

theorem Mask_any_all_none_witness:
  "each_lane_once reversed 0 2 \<and> (0::nat) < 2 \<and>
   Mask_init 2 [5, 0] True = [1, 1] \<and> Mask_init 2 [5, 0] False = [0, 0] \<and>
   Mask_any reversed 2 [1, 1] \<and> Mask_all reversed 2 [1, 1] \<and> \<not> Mask_none reversed 2 [1, 1] \<and>
   \<not> Mask_any reversed 2 [0, 0] \<and> \<not> Mask_all reversed 2 [0, 0] \<and> Mask_none reversed 2 [0, 0] \<and>
   Mask_any reversed 2 [0, 1] \<and> \<not> Mask_all reversed 2 [0, 1] \<and> \<not> Mask_none reversed 2 [0, 1]"
  using Mask_any_all_none [of reversed 2 "[1, 1]"] Mask_any_all_none [of reversed 2 "[0, 0]"]
    Mask_any_all_none [of reversed 2 "[0, 1]"]
  by (simp add: each_lane_once_reversed Mask_init_def for_loop_def Mask_any_def Mask_all_def
      Mask_none_def Mask_get_def vector_simd_for_def reversed_def upt_rec)

section \<open>Sum reduction\<close>

lemma fold_add_permuted:
  fixes p :: "('a::ab_semigroup_add) list"
  assumes "mset xs = mset ys"
  shows "fold (\<lambda>i acc. acc + p ! i) xs a = fold (\<lambda>i acc. acc + p ! i) ys a"
proof -
  have "fold (\<lambda>i acc. acc + p ! i) xs = fold (\<lambda>i acc. acc + p ! i) ys"
    by (rule fold_multiset_equiv) (auto simp: fun_eq_iff ac_simps assms)
  then show ?thesis by simp
qed

lemma fold_add_nth:
  fixes p :: "('a::plus) list"
  shows "fold (\<lambda>i acc. acc + (xs @ p) ! i) [0..<length xs] a = foldl (+) a xs"
proof (induction xs arbitrary: p rule: rev_induct)
  case Nil
  then show ?case by simp
next
  case (snoc x xs)
  then show ?case by simp
qed

lemma serial_sum:
  fixes p :: "('a::plus) list"
  shows "length p = n \<Longrightarrow> for_loop 0 n (\<lambda>i acc. acc + p ! i) a = foldl (+) a p"
  using fold_add_nth [of p "[]" a] by (simp add: for_loop_def)

lemma simd_sum:
  fixes p :: "('a::ab_semigroup_add) list"
  shows "each_lane_once vo 0 n \<Longrightarrow>
    vector_simd_for vo 0 n (\<lambda>i acc. acc + p ! i) a = for_loop 0 n (\<lambda>i acc. acc + p ! i) a"
  by (simp add: vector_simd_for_def for_loop_def each_lane_once_def fold_add_permuted)

text \<open>
  C2. Where the scalar addition is associative and commutative, as that of the integers
  (unbounded or wrapping) is, the vectorised policy of \<^verbatim>\<open>reduce_sum\<close> gives the same result
  as the serialized one from the same accumulator, whatever order the vectorised loop
  takes the lanes in.
\<close>

theorem reduce_sum_policies_agree:
  fixes p :: "('a::ab_semigroup_add) Pack"
  assumes "each_lane_once vo 0 n"
  shows "reduce_sum False vo n p sum0 = reduce_sum True vo n p sum0"
  using assms by (simp add: reduce_sum_def simd_sum)

theorem reduce_sum_policies_agree_witness:
  "each_lane_once reversed 0 4 \<and>
   reduce_sum False reversed 4 [1, 2, 3, 4 :: int] 10 = 20 \<and>
   reduce_sum True reversed 4 [1, 2, 3, 4 :: int] 10 = 20 \<and>
   reduce_sum False reversed 2 [4294967295, 7 :: 32 word] 1 = 7 \<and>
   reduce_sum True reversed 2 [4294967295, 7 :: 32 word] 1 = 7"
  using reduce_sum_policies_agree [of reversed 4 "[1, 2, 3, 4 :: int]" 10]
    reduce_sum_policies_agree [of reversed 2 "[4294967295, 7 :: 32 word]" 1]
  by (simp add: each_lane_once_reversed reduce_sum_def for_loop_def upt_rec)

text \<open>
  C10. \<^verbatim>\<open>reduce_sum(p, sum)\<close> with \<^verbatim>\<open>sum\<close> holding \<open>sum0\<close> leaves
  \<open>sum0 + p[0] + ... + p[N-1]\<close> in \<^verbatim>\<open>sum\<close>: it adds onto the accumulator it is given.
  \<^verbatim>\<open>reduce_sum(p)\<close> returns \<open>p[0] + ... + p[N-1]\<close>, starting from zero. Under either
  policy this holds where the addition is exact (\<open>p\<close>, \<open>sum0\<close>); the serialized policy adds
  strictly from left to right whatever the addition is (\<open>q\<close>, \<open>sum1\<close>).
\<close>

theorem reduce_sum_accumulates:
  fixes p :: "('a::comm_monoid_add) Pack" and q :: "('b::{plus,zero}) Pack"
  assumes "each_lane_once vo 0 n" and "length p = n" and "length q = n"
  shows "reduce_sum Serialize vo n p sum0 = foldl (+) sum0 p \<and>
         reduce_sum Serialize vo n p sum0 = sum0 + sum_list p \<and>
         reduce_sum_of Serialize vo n p = foldl (+) 0 p \<and>
         reduce_sum_of Serialize vo n p = sum_list p \<and>
         reduce_sum True vo n q sum1 = foldl (+) sum1 q \<and>
         reduce_sum_of True vo n q = foldl (+) 0 q"
proof -
  have exact: "reduce_sum Serialize vo n p s = foldl (+) s p" for s
    using assms by (simp add: reduce_sum_def simd_sum serial_sum)
  have total: "foldl (+) s p = s + sum_list p" for s
    by (simp add: foldl_conv_fold fold_plus_sum_list_rev add.commute)
  have serial: "reduce_sum True vo n q s = foldl (+) s q" for s
    using assms by (simp add: reduce_sum_def serial_sum)
  show ?thesis
    by (simp add: reduce_sum_of_def exact total serial)
qed

theorem reduce_sum_accumulates_witness:
  "each_lane_once reversed 0 4 \<and> length [1, 2, 3, 4 :: int] = 4 \<and>
   reduce_sum False reversed 4 [1, 2, 3, 4 :: int] 10 = 20 \<and>
   reduce_sum True reversed 4 [1, 2, 3, 4 :: int] 10 = 20 \<and>
   reduce_sum_of False reversed 4 [1, 2, 3, 4 :: int] = 10 \<and>
   reduce_sum_of True reversed 4 [1, 2, 3, 4 :: int] = 10"
  using reduce_sum_accumulates [of reversed 4 "[1, 2, 3, 4 :: int]" "[1, 2, 3, 4 :: int]" False 10 10]
    reduce_sum_accumulates [of reversed 4 "[1, 2, 3, 4 :: int]" "[1, 2, 3, 4 :: int]" True 10 10]
  by (simp add: each_lane_once_reversed)

section \<open>Masked minimum and maximum\<close>

lemma fold_skip_filter:
  "fold (\<lambda>i acc. if c i then f i acc else acc) xs a = fold f (filter c xs) a"
  by (induction xs arbitrary: a) simp_all

lemma fold_max_permuted:
  fixes p :: "('a::linorder) list"
  assumes "mset xs = mset ys"
  shows "fold (\<lambda>i acc. if c i then max acc (p ! i) else acc) xs a =
         fold (\<lambda>i acc. if c i then max acc (p ! i) else acc) ys a"
proof -
  have "fold (\<lambda>i acc. if c i then max acc (p ! i) else acc) xs =
        fold (\<lambda>i acc. if c i then max acc (p ! i) else acc) ys"
    by (rule fold_multiset_equiv) (auto simp: fun_eq_iff ac_simps assms)
  then show ?thesis by simp
qed

lemma min_masked_fold:
  "min_masked n m init p = fold (\<lambda>i acc. impl_min acc (p ! i)) (filter (Mask_get m) [0..<n]) init"
  by (simp add: min_masked_def for_loop_def fold_skip_filter)

lemma max_masked_fold:
  assumes "each_lane_once vo 0 n"
  shows "max_masked vo n m init p =
           fold (\<lambda>i acc. impl_max acc (p ! i)) (filter (Mask_get m) [0..<n]) init"
proof -
  have "max_masked vo n m init p =
          fold (\<lambda>i acc. if Mask_get m i then max acc (p ! i) else acc) (vo 0 n) init"
    by (simp add: max_masked_def vector_simd_for_def impl_max_def cong: if_cong)
  also have "\<dots> = fold (\<lambda>i acc. if Mask_get m i then max acc (p ! i) else acc) [0..<n] init"
    using assms by (intro fold_max_permuted) (simp add: each_lane_once_def)
  also have "\<dots> = fold (\<lambda>i acc. impl_max acc (p ! i)) (filter (Mask_get m) [0..<n]) init"
    by (simp add: fold_skip_filter impl_max_def)
  finally show ?thesis .
qed

text \<open>
  C6. The masked \<^verbatim>\<open>min\<close> (\<^verbatim>\<open>max\<close>) returns the fold, in lane order, of the scalar minimum
  (maximum) of the accumulator with \<open>p[i]\<close> over the lanes where the mask is true, starting
  from \<open>init\<close>; the other lanes leave the accumulator as it is, so with no lane selected
  the result is \<open>init\<close>. The masked maximum of \<open>[3, 1, 4, 1]\<close> under the mask
  \<open>[true, false, true, false]\<close> from 0 is 4.
\<close>

theorem masked_min_max_fold:
  fixes p :: "('a::linorder) Pack"
  assumes "each_lane_once vo 0 n"
  shows "min_masked n m init p =
           fold (\<lambda>i acc. impl_min acc (p ! i)) (filter (Mask_get m) [0..<n]) init \<and>
         max_masked vo n m init p =
           fold (\<lambda>i acc. impl_max acc (p ! i)) (filter (Mask_get m) [0..<n]) init \<and>
         ((\<forall>i<n. \<not> Mask_get m i) \<longrightarrow>
            min_masked n m init p = init \<and> max_masked vo n m init p = init) \<and>
         (each_lane_once vo 0 4 \<longrightarrow> max_masked vo 4 [1, 0, 1, 0] 0 [3, 1, 4, 1 :: int] = 4)"
proof -
  have none: "filter (Mask_get m) [0..<n] = []" if "\<forall>i<n. \<not> Mask_get m i"
    using that by (simp add: filter_empty_conv)
  have example: "max_masked vo 4 [1, 0, 1, 0] 0 [3, 1, 4, 1 :: int] = 4" if "each_lane_once vo 0 4"
    using max_masked_fold [OF that, of "[1, 0, 1, 0]" 0 "[3, 1, 4, 1 :: int]"]
    by (simp add: Mask_get_def impl_max_def upt_rec)
  show ?thesis
    using assms none example by (simp add: min_masked_fold max_masked_fold)
qed

theorem masked_min_max_fold_witness:
  "each_lane_once reversed 0 4 \<and>
   max_masked reversed 4 [1, 0, 1, 0] 0 [3, 1, 4, 1 :: int] = 4 \<and>
   min_masked 4 [1, 0, 1, 0] 9 [3, 1, 4, 1 :: int] = 3 \<and>
   min_masked 4 [0, 0, 0, 0] 9 [3, 1, 4, 1 :: int] = 9 \<and>
   max_masked reversed 4 [0, 0, 0, 0] 0 [3, 1, 4, 1 :: int] = 0"
  using masked_min_max_fold [of reversed 4 "[1, 0, 1, 0]" 9 "[3, 1, 4, 1 :: int]"]
    masked_min_max_fold [of reversed 4 "[0, 0, 0, 0]" 0 "[3, 1, 4, 1 :: int]"]
    masked_min_max_fold [of reversed 4 "[0, 0, 0, 0]" 9 "[3, 1, 4, 1 :: int]"]
  by (simp add: each_lane_once_reversed Mask_get_def impl_min_def upt_rec)

section \<open>Aborting\<close>

text \<open>
  C9. \<^verbatim>\<open>runtime_check(cond, message, code)\<close> is \<^verbatim>\<open>runtime_abort(message, code)\<close> when
  \<open>cond\<close> is false and does nothing otherwise, so it ends the process iff \<open>cond\<close> is
  false. \<^verbatim>\<open>runtime_abort\<close> always prints the message and \<open>Exiting...\<close>, finalizes the
  session, and ends the process: through \<^verbatim>\<open>MPI_Abort\<close> with the code when MPI is
  initialized, through \<^verbatim>\<open>std::abort\<close> otherwise.
\<close>

theorem runtime_check_and_abort:
  "runtime_check cond message code w =
     (if cond then Returns w else runtime_abort message code w) \<and>
   ((\<exists>e w'. runtime_check cond message code w = Exits e w') \<longleftrightarrow> \<not> cond) \<and>
   runtime_abort message code w =
     Exits (if mpi_initialized w then MPI_Abort code else Abort)
       (w\<lparr>cerr := cerr w @ message @ endl @ ''Exiting...'' @ endl, session_finalized := True\<rparr>)"
  by (simp add: runtime_check_def runtime_abort_def finalize_ekat_session_def MPI_Initialized_def)

theorem runtime_check_and_abort_witness:
  "runtime_check True ''bad'' 3 \<lparr>cerr = [], session_finalized = False, mpi_initialized = True\<rparr> =
     Returns \<lparr>cerr = [], session_finalized = False, mpi_initialized = True\<rparr> \<and>
   runtime_check False ''bad'' 3 \<lparr>cerr = [], session_finalized = False, mpi_initialized = True\<rparr> =
     Exits (MPI_Abort 3)
       \<lparr>cerr = ''bad'' @ endl @ ''Exiting...'' @ endl, session_finalized = True, mpi_initialized = True\<rparr> \<and>
   runtime_abort ''bad'' 3 \<lparr>cerr = [], session_finalized = False, mpi_initialized = False\<rparr> =
     Exits Abort
       \<lparr>cerr = ''bad'' @ endl @ ''Exiting...'' @ endl, session_finalized = True, mpi_initialized = False\<rparr>"
  using runtime_check_and_abort [of True "''bad''" 3 "\<lparr>cerr = [], session_finalized = False, mpi_initialized = True\<rparr>"]
    runtime_check_and_abort [of False "''bad''" 3 "\<lparr>cerr = [], session_finalized = False, mpi_initialized = True\<rparr>"]
    runtime_check_and_abort [of False "''bad''" 3 "\<lparr>cerr = [], session_finalized = False, mpi_initialized = False\<rparr>"]
  by simp

end
